theory Spec2Isabelle
  imports Complex_Main
begin

section \<open>The line repeater (src/pyautogui/Main.py)\<close>

text \<open>
  The program asks for a line of text and a repeat count through two Tk dialogs, shows an
  acknowledgment, waits, and then types the line into the focused window with pyautogui.
  Everything it does is an effect on the outside world, so the model records the calls the
  source makes on its collaborators (tkinter, pyautogui, \<^verbatim>\<open>time.sleep\<close>) as a trace of
  actions, threads the one global variable \<^verbatim>\<open>input_value\<close> through explicitly, and returns
  every Python exception as a value.

  Conventions.
  \<^item> A Python \<^verbatim>\<open>str\<close> is a \<^typ>\<open>string\<close>; one \<^typ>\<open>char\<close> stands for one code point
    below 256, so \<^const>\<open>length\<close> is Python's \<^verbatim>\<open>len\<close> on such strings.
  \<^item> A value that is either \<^verbatim>\<open>None\<close> or a \<^verbatim>\<open>str\<close> is a \<^typ>\<open>string option\<close>.
  \<^item> Python's \<^verbatim>\<open>int\<close> is \<^typ>\<open>int\<close>. A finite number of seconds (the int \<^verbatim>\<open>0\<close>, the
    float literals \<^verbatim>\<open>0.5\<close> and \<^verbatim>\<open>0.1\<close>) is a \<^typ>\<open>rat\<close>, the exact value of the int or the
    float; NaN and the infinities are not modelled.
  \<^item> The keystroke library is assumed to deliver what it is asked to (its fail-safe and
    platform errors are outside the model).
\<close>

subsection \<open>Actions, exceptions and the world\<close>

datatype widget = B1 | B2 | Res | Root

datatype action =
    Dialog string string       \<comment> \<open>lines 9-13 and 42-47: the window, titled and labelled, is built\<close>
  | Destroy widget             \<comment> \<open>\<^verbatim>\<open>w.destroy()\<close>\<close>
  | Status string              \<comment> \<open>\<^verbatim>\<open>status_label.config(text=...)\<close>\<close>
  | Update                     \<comment> \<open>\<^verbatim>\<open>root.update()\<close>\<close>
  | Sleep rat                  \<comment> \<open>\<^verbatim>\<open>time.sleep(d)\<close> that was accepted\<close>
  | Showinfo string string     \<comment> \<open>\<^verbatim>\<open>messagebox.showinfo(title, message)\<close>\<close>
  | Typewrite string rat       \<comment> \<open>\<^verbatim>\<open>pyautogui.typewrite(message, interval=i)\<close>\<close>
  | Press string               \<comment> \<open>\<^verbatim>\<open>pyautogui.press(key)\<close>\<close>
  | Hotkey "string list"       \<comment> \<open>\<^verbatim>\<open>pyautogui.hotkey(k1, k2, ...)\<close>\<close>

datatype exn = SystemExit | ValueError | TypeError | OverflowError | OSError

text \<open>
  Besides the global and the trace, the world holds one fact of the machine the program
  runs on: the longest duration its timer takes (see \<open>sleep\<close> below). No action changes it.
\<close>

record world =
  input_value :: "string option"   \<comment> \<open>the module-level global of line 6\<close>
  trace :: "action list"           \<comment> \<open>the actions issued so far, oldest first\<close>
  timer_limit :: rat               \<comment> \<open>the longest duration, in seconds, that the timer takes\<close>

type_synonym 'a prog = "world \<Rightarrow> (exn + 'a) \<times> world"

definition ret :: "'a \<Rightarrow> 'a prog" where
  "ret x w = (Inr x, w)"

definition raise :: "exn \<Rightarrow> 'a prog" where
  "raise e w = (Inl e, w)"

definition emit :: "action \<Rightarrow> unit prog" where
  "emit a w = (Inr (), w\<lparr>trace := trace w @ [a]\<rparr>)"

definition bind :: "'a prog \<Rightarrow> ('a \<Rightarrow> 'b prog) \<Rightarrow> 'b prog" where
  "bind m f w = (case m w of (Inl e, w') \<Rightarrow> (Inl e, w') | (Inr x, w') \<Rightarrow> f x w')"

definition seq :: "unit prog \<Rightarrow> 'b prog \<Rightarrow> 'b prog" where
  "seq m k = bind m (\<lambda>_. k)"

text \<open>A block of statements runs them in order and stops at the first exception.\<close>

fun block :: "unit prog list \<Rightarrow> unit prog" where
  "block [] = ret ()"
| "block (m # ms) = seq m (block ms)"

text \<open>A \<^verbatim>\<open>for x in xs\<close> loop.\<close>

fun for_each :: "'a list \<Rightarrow> ('a \<Rightarrow> unit prog) \<Rightarrow> unit prog" where
  "for_each [] body = ret ()"
| "for_each (x # xs) body = seq (body x) (for_each xs body)"

text \<open>\<^verbatim>\<open>range(a, b)\<close>: the integers from \<open>a\<close> up to \<open>b - 1\<close>, none when \<open>b \<le> a\<close>.\<close>

definition py_range :: "int \<Rightarrow> int \<Rightarrow> int list" where
  "py_range a b = map (\<lambda>k. a + int k) [0..<nat (b - a)]"

subsection \<open>The library calls\<close>

text \<open>
  \<^verbatim>\<open>time.sleep(d)\<close>, as CPython 3.11 does it on Linux, in this order.
  \<^enum> The duration is turned into signed 64-bit nanoseconds, and OverflowError is raised when
    it does not fit, whatever its sign. An int is scaled exactly and must lie between
    \<open>-2^63\<close> and \<open>2^63 - 1\<close>; a float is scaled in double precision, where the products that
    round into that range are those from \<open>-2^63 - 1024\<close> up to, but not including,
    \<open>2^63 - 512\<close>. No whole number of seconds lies between the two pairs of bounds, so the
    second pair decides for both.
  \<^enum> A negative duration is a ValueError.
  \<^enum> The timer is set to the monotonic clock's reading plus the duration, and the system
    refuses a deadline past the end of that clock with OSError. How much of the clock is left
    depends on how long the machine has been up: it is the world's \<open>timer_limit\<close>, taken as
    fixed during a run. The clock lasts 292 years from the start of the machine, and the
    model takes a duration of a day or less (\<open>sure_sleep\<close>) as never refused.
  \<^enum> Otherwise the call blocks for \<open>d\<close> seconds and returns.
\<close>

definition in_clock_range :: "rat \<Rightarrow> bool" where
  "in_clock_range d = (- (2 ^ 63) - 1024 \<le> d * 10 ^ 9 \<and> d * 10 ^ 9 < 2 ^ 63 - 512)"

definition sure_sleep :: rat where
  "sure_sleep = 86400"

definition sleep :: "rat \<Rightarrow> unit prog" where
  "sleep d w =
     (if \<not> in_clock_range d then raise OverflowError w
      else if d < 0 then raise ValueError w
      else if sure_sleep < d \<and> timer_limit w < d then raise OSError w
      else emit (Sleep d) w)"

text \<open>The durations on which \<^verbatim>\<open>time.sleep\<close> returns normally in a world, and its error otherwise.\<close>

definition sleep_accepts :: "world \<Rightarrow> rat \<Rightarrow> bool" where
  "sleep_accepts w d =
     (in_clock_range d \<and> 0 \<le> d \<and> (d \<le> sure_sleep \<or> d \<le> timer_limit w))"

definition sleep_error :: "rat \<Rightarrow> exn" where
  "sleep_error d =
     (if \<not> in_clock_range d then OverflowError
      else if d < 0 then ValueError
      else OSError)"

text \<open>
  \<^verbatim>\<open>pyautogui.typewrite(message, interval)\<close> iterates over \<open>message\<close> and presses one key per
  character; iterating over \<^verbatim>\<open>None\<close> is a TypeError.
\<close>

definition typewrite :: "string option \<Rightarrow> rat \<Rightarrow> unit prog" where
  "typewrite message interval =
     (case message of None \<Rightarrow> raise TypeError | Some s \<Rightarrow> emit (Typewrite s interval))"

definition press :: "string \<Rightarrow> unit prog" where
  "press k = emit (Press k)"

definition hotkey :: "string list \<Rightarrow> unit prog" where
  "hotkey ks = emit (Hotkey ks)"

subsection \<open>\<^verbatim>\<open>repeat_line\<close> (lines 52-59)\<close>

text \<open>The parameter \<^verbatim>\<open>times\<close> is written \<open>ntimes\<close>: \<open>times\<close> is HOL's multiplication.\<close>

definition repeat_line :: "string option \<Rightarrow> int \<Rightarrow> rat \<Rightarrow> string \<Rightarrow> unit prog" where
  "repeat_line line ntimes delay key =
     for_each (py_range 0 ntimes) (\<lambda>i.
       block [
         typewrite line (1 / 10),
         (if key = ''enter'' then press ''enter''
          else if key = ''shift+enter'' then hotkey [''shift'', ''enter'']
          else ret ()),
         sleep delay])"

subsection \<open>\<^verbatim>\<open>get_input_from_tk_window\<close> (lines 8-50)\<close>

text \<open>
  What the user does with one dialog: press Submit with some text in the field, press
  Cancel, or close the window through the window manager (Tk then destroys the window and
  \<^verbatim>\<open>mainloop\<close> returns without any callback having run).
\<close>

datatype gesture = Click_submit string | Click_cancel | Close_window

definition destroy :: "widget \<Rightarrow> unit prog" where
  "destroy x = emit (Destroy x)"

definition status_config :: "string \<Rightarrow> unit prog" where
  "status_config text = emit (Status text)"

definition update :: "unit prog" where
  "update = emit Update"

text \<open>\<^verbatim>\<open>sys.exit()\<close> raises SystemExit; tkinter lets it through a callback and out of \<^verbatim>\<open>mainloop\<close>.\<close>

definition sys_exit :: "unit prog" where
  "sys_exit = raise SystemExit"

definition set_input_value :: "string \<Rightarrow> unit prog" where
  "set_input_value v w = (Inr (), w\<lparr>input_value := Some v\<rparr>)"

definition get_input_value :: "string option prog" where
  "get_input_value w = (Inr (input_value w), w)"

text \<open>Lines 14-23.\<close>

definition cancel_click :: "unit prog" where
  "cancel_click =
     block [
       destroy B1,
       destroy B2,
       destroy Res,
       sleep 2,
       status_config ''Exiting Application...'',
       update,
       sleep 2,
       destroy Root,
       sys_exit]"

text \<open>Lines 25-40; \<open>result\<close> is the text of the field when Submit is pressed (line 27).\<close>

definition submit_click :: "string \<Rightarrow> unit prog" where
  "submit_click result =
     block [
       destroy Res,
       destroy B1,
       destroy B2,
       (if result = []
        then block [status_config ''No Value Submitted'', update, cancel_click]
        else ret ()),
       status_config (''Submitted value: '' @ result),
       update,
       sleep 2,
       destroy Root,
       set_input_value result]"

definition mainloop :: "gesture \<Rightarrow> unit prog" where
  "mainloop g =
     (case g of
        Click_submit text \<Rightarrow> submit_click text
      | Click_cancel \<Rightarrow> cancel_click
      | Close_window \<Rightarrow> ret ())"

definition get_input_from_tk_window :: "string \<Rightarrow> string \<Rightarrow> gesture \<Rightarrow> string option prog" where
  "get_input_from_tk_window Title Message g =
     seq (emit (Dialog Title Message)) (seq (mainloop g) get_input_value)"

subsection \<open>The built-ins \<^verbatim>\<open>int\<close> and \<^verbatim>\<open>str\<close> on the values the program gives them\<close>

text \<open>
  \<^verbatim>\<open>int(s)\<close> on a string, base 10: white space is stripped at both ends, one sign may
  follow, then decimal digits, where single underscores may stand between digits. An
  interpreter from 3.11 on refuses more than 4300 digits. Anything else is a ValueError.
\<close>

definition is_space :: "char \<Rightarrow> bool" where
  "is_space c = (of_char c \<in> {9, 10, 11, 12, 13, 32, 133, 160 :: nat})"

definition is_digit :: "char \<Rightarrow> bool" where
  "is_digit c = (48 \<le> (of_char c :: nat) \<and> (of_char c :: nat) \<le> 57)"

definition digit_val :: "char \<Rightarrow> int" where
  "digit_val c = int (of_char c) - 48"

fun valid_body :: "string \<Rightarrow> bool" where
  "valid_body [] = False"
| "valid_body [c] = is_digit c"
| "valid_body (c # d # ds) =
     (is_digit c \<and> (if d = CHR ''_'' then valid_body ds else valid_body (d # ds)))"

definition int_max_str_digits :: nat where
  "int_max_str_digits = 4300"

definition parse_body :: "string \<Rightarrow> int option" where
  "parse_body b =
     (let ds = filter (\<lambda>c. c \<noteq> CHR ''_'') b in
      if valid_body b \<and> length ds \<le> int_max_str_digits
      then Some (foldl (\<lambda>a c. 10 * a + digit_val c) 0 ds)
      else None)"

definition strip :: "string \<Rightarrow> string" where
  "strip s = rev (dropWhile is_space (rev (dropWhile is_space s)))"

definition parse_int :: "string \<Rightarrow> int option" where
  "parse_int s =
     (case strip s of
        [] \<Rightarrow> None
      | c # cs \<Rightarrow>
          if c = CHR ''-'' then map_option uminus (parse_body cs)
          else if c = CHR ''+'' then parse_body cs
          else parse_body (c # cs))"

text \<open>\<^verbatim>\<open>int(x)\<close> where \<open>x\<close> is \<^verbatim>\<open>None\<close> or a string.\<close>

definition py_int :: "string option \<Rightarrow> int prog" where
  "py_int x =
     (case x of
        None \<Rightarrow> raise TypeError
      | Some s \<Rightarrow> (case parse_int s of None \<Rightarrow> raise ValueError | Some n \<Rightarrow> ret n))"

text \<open>The decimal digits of a natural number, and \<^verbatim>\<open>str(i)\<close> (what an f-string puts for an int).\<close>

function str_nat :: "nat \<Rightarrow> string" where
  "str_nat n =
     (if n < 10 then [char_of (48 + n)]
      else str_nat (n div 10) @ [char_of (48 + n mod 10)])"
  by pat_completeness auto
termination
  by (relation "measure id") auto

declare str_nat.simps [simp del]

definition decimal :: "int \<Rightarrow> string" where
  "decimal i = (if i < 0 then CHR ''-'' # str_nat (nat (- i)) else str_nat (nat i))"

text \<open>An interpreter from 3.11 on refuses to print an int of more than 4300 digits.\<close>

definition py_str :: "int \<Rightarrow> string prog" where
  "py_str i =
     (if int_max_str_digits < length (str_nat (nat \<bar>i\<bar>)) then raise ValueError
      else ret (decimal i))"

text \<open>\<^verbatim>\<open>a + b\<close> where \<open>a\<close> is a string and \<open>b\<close> is \<^verbatim>\<open>None\<close> or a string.\<close>

definition str_add :: "string \<Rightarrow> string option \<Rightarrow> string prog" where
  "str_add a b = (case b of None \<Rightarrow> raise TypeError | Some s \<Rightarrow> ret (a @ s))"

subsection \<open>\<^verbatim>\<open>line_repeater\<close> (lines 61-66) and the entry point (lines 69-70)\<close>

definition showinfo :: "string \<Rightarrow> string \<Rightarrow> unit prog" where
  "showinfo title message = emit (Showinfo title message)"

text \<open>The argument of \<^verbatim>\<open>showinfo\<close> on line 64, evaluated left to right.\<close>

definition ack_message :: "string option \<Rightarrow> int \<Rightarrow> string prog" where
  "ack_message ntimes wait_before_start =
     bind (str_add ''The line will be repeated '' ntimes) (\<lambda>a.
     bind (py_str wait_before_start) (\<lambda>secs.
     ret (a @ '' times. Please switch to the target application and click on the text box to start the process in ''
            @ secs @ '' Seconds.'')))"

definition line_repeater :: "int \<Rightarrow> gesture \<Rightarrow> gesture \<Rightarrow> unit prog" where
  "line_repeater wait_before_start g1 g2 =
     bind (get_input_from_tk_window ''Line Repeator'' ''Enter the line:'' g1) (\<lambda>line.
     bind (get_input_from_tk_window ''Line Repeator''
             ''Enter the number of times to be repeated:'' g2) (\<lambda>ntimes.
     bind (ack_message ntimes wait_before_start) (\<lambda>message.
     seq (showinfo ''Line Repeator'' message) (
     seq (sleep (of_int wait_before_start)) (
     bind (py_int ntimes) (\<lambda>n.
     repeat_line line n (1 / 2) ''shift+enter''))))))"

text \<open>The default of the parameter in the \<^verbatim>\<open>def\<close> on line 61, and the call without an argument.\<close>

definition wait_before_start_default :: int where
  "wait_before_start_default = 10"

definition line_repeater_no_argument :: "gesture \<Rightarrow> gesture \<Rightarrow> unit prog" where
  "line_repeater_no_argument g1 g2 = line_repeater wait_before_start_default g1 g2"

text \<open>
  Line 6 at import time, on a machine whose timer takes \<open>limit\<close> seconds at most, and the
  call on line 70.
\<close>

definition initial_world :: "rat \<Rightarrow> world" where
  "initial_world limit = \<lparr>input_value = None, trace = [], timer_limit = limit\<rparr>"

definition main :: "rat \<Rightarrow> gesture \<Rightarrow> gesture \<Rightarrow> (exn + unit) \<times> world" where
  "main limit g1 g2 = line_repeater 7 g1 g2 (initial_world limit)"

subsection \<open>Observations on a run\<close>

definition outcome :: "'a prog \<Rightarrow> world \<Rightarrow> exn + 'a" where
  "outcome m w = fst (m w)"

definition issued :: "'a prog \<Rightarrow> world \<Rightarrow> action list" where
  "issued m w = drop (length (trace w)) (trace (snd (m w)))"

fun is_submit :: "action \<Rightarrow> bool" where
  "is_submit (Press k) = True"
| "is_submit (Hotkey ks) = True"
| "is_submit a = False"

fun is_typewrite :: "action \<Rightarrow> bool" where
  "is_typewrite (Typewrite s i) = True"
| "is_typewrite a = False"

fun typed_chars :: "action \<Rightarrow> nat" where
  "typed_chars (Typewrite s i) = length s"
| "typed_chars a = 0"

definition char_actions :: "action list \<Rightarrow> nat" where
  "char_actions es = sum_list (map typed_chars es)"

definition submit_actions :: "action list \<Rightarrow> nat" where
  "submit_actions es = length (filter is_submit es)"

fun is_keyboard :: "action \<Rightarrow> bool" where
  "is_keyboard (Typewrite s i) = True"
| "is_keyboard (Press k) = True"
| "is_keyboard (Hotkey ks) = True"
| "is_keyboard a = False"

text \<open>The gestures on which a dialog ends the process, and what a dialog returns otherwise.\<close>

fun exits :: "gesture \<Rightarrow> bool" where
  "exits Click_cancel = True"
| "exits (Click_submit text) = (text = [])"
| "exits Close_window = False"

text \<open>What one dialog leaves in the trace and in \<open>input_value\<close>, gesture by gesture.\<close>

definition cancel_actions :: "action list" where
  "cancel_actions =
     [Destroy B1, Destroy B2, Destroy Res, Sleep 2, Status ''Exiting Application...'', Update,
      Sleep 2, Destroy Root]"

definition dialog_actions :: "string \<Rightarrow> string \<Rightarrow> gesture \<Rightarrow> action list" where
  "dialog_actions Title Message g =
     Dialog Title Message #
     (case g of
        Click_cancel \<Rightarrow> cancel_actions
      | Click_submit text \<Rightarrow>
          if text = []
          then [Destroy Res, Destroy B1, Destroy B2, Status ''No Value Submitted'', Update]
               @ cancel_actions
          else [Destroy Res, Destroy B1, Destroy B2, Status (''Submitted value: '' @ text),
                Update, Sleep 2, Destroy Root]
      | Close_window \<Rightarrow> [])"

definition dialog_value :: "gesture \<Rightarrow> string option \<Rightarrow> string option" where
  "dialog_value g old =
     (case g of
        Click_submit text \<Rightarrow> if text = [] then old else Some text
      | Click_cancel \<Rightarrow> old
      | Close_window \<Rightarrow> old)"

text \<open>The text of the acknowledgment for a count string and a number of seconds.\<close>

definition ack_text :: "string \<Rightarrow> int \<Rightarrow> string" where
  "ack_text count secs =
     ''The line will be repeated '' @ count
     @ '' times. Please switch to the target application and click on the text box to start the process in ''
     @ decimal secs @ '' Seconds.''"

text \<open>The actions of one loop iteration whose sleep is accepted.\<close>

definition submit_of :: "string \<Rightarrow> action list" where
  "submit_of key =
     (if key = ''enter'' then [Press ''enter'']
      else if key = ''shift+enter'' then [Hotkey [''shift'', ''enter'']]
      else [])"

definition iteration_of :: "string \<Rightarrow> rat \<Rightarrow> string \<Rightarrow> action list" where
  "iteration_of line delay key = Typewrite line (1 / 10) # submit_of key @ [Sleep delay]"

section \<open>Properties\<close>

subsection \<open>Running programs\<close>

lemma bind_ret [simp]: "bind (ret x) f w = f x w"
  by (simp add: bind_def ret_def)

lemma bind_raise [simp]: "bind (raise e) f w = (Inl e, w)"
  by (simp add: bind_def raise_def)

lemma bind_emit [simp]: "bind (emit a) f w = f () (w\<lparr>trace := trace w @ [a]\<rparr>)"
  by (simp add: bind_def emit_def)

lemma seq_ret [simp]: "seq (ret x) k w = k w"
  by (simp add: seq_def)

lemma seq_raise [simp]: "seq (raise e) k w = (Inl e, w)"
  by (simp add: seq_def)

lemma seq_emit [simp]: "seq (emit a) k w = k (w\<lparr>trace := trace w @ [a]\<rparr>)"
  by (simp add: seq_def)

lemma seq_Inr:
  "m w = (Inr (), w') \<Longrightarrow> seq m k w = k w'"
  by (simp add: seq_def bind_def)

lemma seq_Inl:
  "m w = (Inl e, w') \<Longrightarrow> seq m k w = (Inl e, w')"
  by (simp add: seq_def bind_def)

lemma sleep_accepts_trace [simp]: "sleep_accepts (w\<lparr>trace := t\<rparr>) d = sleep_accepts w d"
  by (simp add: sleep_accepts_def)

lemma sleep_accepts_input_value [simp]:
  "sleep_accepts (w\<lparr>input_value := v\<rparr>) d = sleep_accepts w d"
  by (simp add: sleep_accepts_def)

lemma sleep_accepts_sure:
  assumes "0 \<le> d" and "d \<le> sure_sleep"
  shows "sleep_accepts w d"
proof -
  from assms have "d * 10 ^ 9 \<le> 86400 * 10 ^ 9" and "0 \<le> d * 10 ^ 9"
    by (simp_all add: sure_sleep_def)
  then have "in_clock_range d"
    by (simp add: in_clock_range_def)
  with assms show ?thesis
    by (simp add: sleep_accepts_def)
qed

lemma sleep_accepted:
  "sleep_accepts w d \<Longrightarrow> sleep d w = (Inr (), w\<lparr>trace := trace w @ [Sleep d]\<rparr>)"
  by (auto simp: sleep_def sleep_accepts_def emit_def)

lemma sleep_refused:
  "\<not> sleep_accepts w d \<Longrightarrow> sleep d w = (Inl (sleep_error d), w)"
  by (auto simp: sleep_def sleep_accepts_def sleep_error_def raise_def)

lemma seq_sleep_accepted:
  "sleep_accepts w d \<Longrightarrow> seq (sleep d) k w = k (w\<lparr>trace := trace w @ [Sleep d]\<rparr>)"
  by (simp add: seq_def bind_def sleep_accepted)

lemma seq_sleep_refused:
  "\<not> sleep_accepts w d \<Longrightarrow> seq (sleep d) k w = (Inl (sleep_error d), w)"
  by (simp add: seq_def bind_def sleep_refused)

subsection \<open>The loop of \<^verbatim>\<open>repeat_line\<close>\<close>

lemma for_each_appends:
  assumes step: "\<And>x v. sleep_accepts v d \<Longrightarrow> body x v = (Inr (), v\<lparr>trace := trace v @ es\<rparr>)"
    and w: "sleep_accepts w d"
  shows "for_each xs body w = (Inr (), w\<lparr>trace := trace w @ concat (replicate (length xs) es)\<rparr>)"
  using w
proof (induction xs arbitrary: w)
  case Nil
  show ?case by (simp add: ret_def)
next
  case (Cons x xs)
  from Cons.prems have next_w: "sleep_accepts (w\<lparr>trace := trace w @ es\<rparr>) d"
    by simp
  show ?case
    by (simp add: seq_def bind_def step [OF Cons.prems] Cons.IH [OF next_w])
qed

lemma for_each_stops:
  assumes "body x w = (Inl e, w')"
  shows "for_each (x # xs) body w = (Inl e, w')"
  using assms by (simp add: seq_def bind_def)

lemma length_py_range [simp]: "length (py_range a b) = nat (b - a)"
  by (simp add: py_range_def)

lemma py_range_empty: "b \<le> a \<Longrightarrow> py_range a b = []"
  by (simp add: py_range_def)

lemma py_range_nonempty:
  assumes "a < b"
  shows "py_range a b = a # py_range (a + 1) b"
proof -
  from assms have n: "nat (b - a) = Suc (nat (b - (a + 1)))"
    by simp
  have "[0..<Suc (nat (b - (a + 1)))] = 0 # map Suc [0..<nat (b - (a + 1))]"
    by (simp add: upt_conv_Cons map_Suc_upt del: upt_Suc)
  then show ?thesis
    by (simp add: py_range_def n del: upt_Suc)
qed

lemma submit_step:
  "seq (if key = ''enter'' then press ''enter''
        else if key = ''shift+enter'' then hotkey [''shift'', ''enter'']
        else ret ()) k w = k (w\<lparr>trace := trace w @ submit_of key\<rparr>)"
  by (simp add: submit_of_def press_def hotkey_def)

lemma iteration_accepted:
  "sleep_accepts w delay \<Longrightarrow>
   block [typewrite (Some line) (1 / 10),
          (if key = ''enter'' then press ''enter''
           else if key = ''shift+enter'' then hotkey [''shift'', ''enter'']
           else ret ()),
          sleep delay] w
   = (Inr (), w\<lparr>trace := trace w @ iteration_of line delay key\<rparr>)"
  by (simp add: typewrite_def submit_step seq_sleep_accepted iteration_of_def ret_def)

lemma iteration_refused:
  "\<not> sleep_accepts w delay \<Longrightarrow>
   block [typewrite (Some line) (1 / 10),
          (if key = ''enter'' then press ''enter''
           else if key = ''shift+enter'' then hotkey [''shift'', ''enter'']
           else ret ()),
          sleep delay] w
   = (Inl (sleep_error delay),
      w\<lparr>trace := trace w @ Typewrite line (1 / 10) # submit_of key\<rparr>)"
  by (simp add: typewrite_def submit_step seq_sleep_refused)

lemma repeat_line_accepted:
  assumes accepted: "sleep_accepts w delay"
  shows "repeat_line (Some line) ntimes delay key w
   = (Inr (), w\<lparr>trace := trace w @ concat (replicate (nat ntimes) (iteration_of line delay key))\<rparr>)"
proof -
  let ?body = "\<lambda>i::int. block [typewrite (Some line) (1 / 10),
          (if key = ''enter'' then press ''enter''
           else if key = ''shift+enter'' then hotkey [''shift'', ''enter'']
           else ret ()),
          sleep delay]"
  have "for_each (py_range 0 ntimes) ?body w
        = (Inr (), w\<lparr>trace := trace w @ concat (replicate (length (py_range 0 ntimes))
                       (iteration_of line delay key))\<rparr>)"
    by (rule for_each_appends [where d = delay]) (rule iteration_accepted, assumption, rule accepted)
  then show ?thesis
    by (simp add: repeat_line_def del: block.simps)
qed

lemma repeat_line_refused:
  assumes refused: "\<not> sleep_accepts w delay" and pos: "0 < ntimes"
  shows "repeat_line (Some line) ntimes delay key w
   = (Inl (sleep_error delay),
      w\<lparr>trace := trace w @ Typewrite line (1 / 10) # submit_of key\<rparr>)"
proof -
  let ?body = "\<lambda>i::int. block [typewrite (Some line) (1 / 10),
          (if key = ''enter'' then press ''enter''
           else if key = ''shift+enter'' then hotkey [''shift'', ''enter'']
           else ret ()),
          sleep delay]"
  have "for_each (0 # py_range (0 + 1) ntimes) ?body w
        = (Inl (sleep_error delay),
           w\<lparr>trace := trace w @ Typewrite line (1 / 10) # submit_of key\<rparr>)"
    by (rule for_each_stops) (rule iteration_refused [OF refused])
  with pos show ?thesis
    by (simp only: repeat_line_def py_range_nonempty)
qed

lemma repeat_line_no_iteration:
  "ntimes \<le> 0 \<Longrightarrow> repeat_line line ntimes delay key w = (Inr (), w)"
  by (simp add: repeat_line_def py_range_empty ret_def)


subsection \<open>Counting over iterations\<close>

lemma filter_concat_replicate:
  "filter P (concat (replicate n es)) = concat (replicate n (filter P es))"
  by (induction n) simp_all

lemma concat_replicate_single: "concat (replicate n [a]) = replicate n a"
  by (induction n) simp_all

lemma concat_replicate_Nil: "concat (replicate n []) = []"
  by (induction n) simp_all

lemma char_actions_iterations:
  "char_actions (concat (replicate n (iteration_of line delay key))) = n * length line"
  by (induction n) (simp_all add: char_actions_def iteration_of_def submit_of_def)

lemma filter_submit_iteration:
  "filter is_submit (iteration_of line delay key) = submit_of key"
  by (simp add: iteration_of_def submit_of_def)

lemma sleep_error_minus_1: "sleep_error (- 1) = ValueError"
  by (simp add: sleep_error_def in_clock_range_def)

lemma sleep_error_10000000000: "sleep_error 10000000000 = OverflowError"
  by (simp add: sleep_error_def in_clock_range_def)

lemma sleep_error_9223372036: "sleep_error 9223372036 = OSError"
  by (simp add: sleep_error_def in_clock_range_def)

lemma refuses_minus_1: "\<not> sleep_accepts w (- 1)"
  by (simp add: sleep_accepts_def)

lemma refuses_10000000000: "\<not> sleep_accepts w 10000000000"
  by (simp add: sleep_accepts_def in_clock_range_def)

lemma refuses_9223372036: "\<not> sleep_accepts (initial_world 9223359101) 9223372036"
  by (simp add: sleep_accepts_def initial_world_def sure_sleep_def)

lemma accepts_0: "sleep_accepts w 0"
  by (rule sleep_accepts_sure) (simp_all add: sure_sleep_def)

lemma accepts_half: "sleep_accepts w (1 / 2)"
  by (rule sleep_accepts_sure) (simp_all add: sure_sleep_def)

lemma trace_initial_world: "trace (initial_world limit) = []"
  by (simp add: initial_world_def)

text \<open>
  Claim C1 as stated does not hold for every delay. With \<open>ntimes = 2\<close> and key \<^verbatim>\<open>"enter"\<close>, a delay
  of \<open>-1\<close> gives one \<^verbatim>\<open>press("enter")\<close> and two typed characters, then ValueError from the first
  \<^verbatim>\<open>time.sleep\<close>; a delay of \<open>10^10\<close> seconds does the same with OverflowError, and one of
  9223372036 seconds, on a machine whose timer takes 9223359101 seconds, with OSError.
\<close>

theorem refused_delay_presses_once:
  "outcome (repeat_line (Some ''ab'') 2 (- 1) ''enter'') (initial_world 0) = Inl ValueError
   \<and> issued (repeat_line (Some ''ab'') 2 (- 1) ''enter'') (initial_world 0)
     = [Typewrite ''ab'' (1 / 10), Press ''enter'']
   \<and> submit_actions (issued (repeat_line (Some ''ab'') 2 (- 1) ''enter'') (initial_world 0)) = 1
   \<and> char_actions (issued (repeat_line (Some ''ab'') 2 (- 1) ''enter'') (initial_world 0)) = 2
   \<and> outcome (repeat_line (Some ''ab'') 2 10000000000 ''enter'') (initial_world 0)
     = Inl OverflowError
   \<and> issued (repeat_line (Some ''ab'') 2 10000000000 ''enter'') (initial_world 0)
     = [Typewrite ''ab'' (1 / 10), Press ''enter'']
   \<and> outcome (repeat_line (Some ''ab'') 2 9223372036 ''enter'') (initial_world 9223359101)
     = Inl OSError
   \<and> issued (repeat_line (Some ''ab'') 2 9223372036 ''enter'') (initial_world 9223359101)
     = [Typewrite ''ab'' (1 / 10), Press ''enter'']"
proof -
  have two: "(0::int) < 2" by simp
  show ?thesis
    by (simp add: outcome_def issued_def submit_of_def trace_initial_world submit_actions_def
          char_actions_def sleep_error_minus_1 sleep_error_10000000000 sleep_error_9223372036
          repeat_line_refused [OF refuses_minus_1 two]
          repeat_line_refused [OF refuses_10000000000 two]
          repeat_line_refused [OF refuses_9223372036 two])
qed

text \<open>
  Claim C1, amended. For every string \<open>line\<close>, every \<open>ntimes \<ge> 0\<close> and every delay that
  \<^verbatim>\<open>time.sleep\<close> accepts, \<^verbatim>\<open>repeat_line(line, times, delay, "enter")\<close> returns normally, issues
  exactly \<open>ntimes\<close> submit actions, each of them \<^verbatim>\<open>press("enter")\<close>, and types exactly
  \<open>ntimes * len(line)\<close> characters; none of either kind when \<open>ntimes = 0\<close>.
\<close>

theorem repeat_line_enter_counts:
  assumes "0 \<le> ntimes" and "sleep_accepts w delay"
  shows "outcome (repeat_line (Some line) ntimes delay ''enter'') w = Inr ()
       \<and> filter is_submit (issued (repeat_line (Some line) ntimes delay ''enter'') w)
           = replicate (nat ntimes) (Press ''enter'')
       \<and> int (submit_actions (issued (repeat_line (Some line) ntimes delay ''enter'') w)) = ntimes
       \<and> int (char_actions (issued (repeat_line (Some line) ntimes delay ''enter'') w))
           = ntimes * int (length line)"
proof -
  note run = repeat_line_accepted [OF assms(2), of line ntimes "''enter''"]
  have sub: "filter is_submit (concat (replicate (nat ntimes) (iteration_of line delay ''enter'')))
             = replicate (nat ntimes) (Press ''enter'')"
    by (simp add: filter_concat_replicate filter_submit_iteration submit_of_def
          concat_replicate_single)
  from assms(1) show ?thesis
    by (simp add: outcome_def issued_def run sub submit_actions_def
          char_actions_iterations)
qed

theorem repeat_line_enter_counts_witness:
  "outcome (repeat_line (Some ''hello'') 3 0 ''enter'') (initial_world 0) = Inr ()
   \<and> filter is_submit (issued (repeat_line (Some ''hello'') 3 0 ''enter'') (initial_world 0))
       = [Press ''enter'', Press ''enter'', Press ''enter'']
   \<and> submit_actions (issued (repeat_line (Some ''hello'') 3 0 ''enter'') (initial_world 0)) = 3
   \<and> char_actions (issued (repeat_line (Some ''hello'') 3 0 ''enter'') (initial_world 0)) = 15"
  using repeat_line_enter_counts [of 3 "initial_world 0" 0 "''hello''"]
  by (simp add: accepts_0 numeral_3_eq_3)

text \<open>
  Claim C10. For every line (a string or \<^verbatim>\<open>None\<close>), every delay, every key and every negative
  \<open>ntimes\<close>, \<^verbatim>\<open>repeat_line\<close> returns normally and leaves the world as it found it: no typing, no
  submit action, no sleep.
\<close>

theorem repeat_line_negative:
  assumes "ntimes < 0"
  shows "repeat_line line ntimes delay key w = (Inr (), w)"
  using assms by (simp add: repeat_line_no_iteration)

theorem repeat_line_negative_witness:
  "repeat_line (Some ''hello'') (- 2) (1 / 2) ''enter'' (initial_world 0)
     = (Inr (), initial_world 0)
   \<and> repeat_line None (- 1) (- 1) ''ctrl'' (initial_world 0) = (Inr (), initial_world 0)"
  using repeat_line_negative [of "- 2" "Some ''hello''" "1 / 2" "''enter''" "initial_world 0"]
    repeat_line_negative [of "- 1" None "- 1" "''ctrl''" "initial_world 0"]
  by simp

text \<open>
  Claim C4. For every line, every delay and every \<open>ntimes \<ge> 1\<close>, the submit actions that
  \<^verbatim>\<open>repeat_line\<close> issues with key \<^verbatim>\<open>"shift+enter"\<close> are all \<^verbatim>\<open>hotkey("shift", "enter")\<close>, one per
  iteration that runs (all \<open>ntimes\<close> of them when the sleep is accepted, the first one
  otherwise), and no \<^verbatim>\<open>press\<close> of any key is ever issued.
\<close>

theorem repeat_line_shift_enter:
  assumes "1 \<le> ntimes"
  shows "filter is_submit (issued (repeat_line (Some line) ntimes delay ''shift+enter'') w)
           = replicate (if sleep_accepts w delay then nat ntimes else 1)
               (Hotkey [''shift'', ''enter''])
       \<and> (\<forall>k. Press k \<notin> set (issued (repeat_line (Some line) ntimes delay ''shift+enter'') w))"
proof (cases "sleep_accepts w delay")
  case True
  note run = repeat_line_accepted [OF True, of line ntimes "''shift+enter''"]
  show ?thesis
    by (simp add: issued_def run True filter_concat_replicate iteration_of_def submit_of_def
          concat_replicate_single)
next
  case False
  from assms have "0 < ntimes" by simp
  note run = repeat_line_refused [OF False this, of line "''shift+enter''"]
  show ?thesis
    by (simp add: issued_def run False submit_of_def)
qed

theorem repeat_line_shift_enter_witness:
  "filter is_submit
     (issued (repeat_line (Some ''hi'') 2 (1 / 2) ''shift+enter'') (initial_world 0))
     = [Hotkey [''shift'', ''enter''], Hotkey [''shift'', ''enter'']]
   \<and> (\<forall>k. Press k \<notin> set (issued (repeat_line (Some ''hi'') 2 (1 / 2) ''shift+enter'')
                             (initial_world 0)))"
  using repeat_line_shift_enter [of 2 "''hi''" "1 / 2" "initial_world 0"]
  by (simp add: accepts_half numeral_2_eq_2)

text \<open>
  Claim C9 as stated (every delay, no failure) does not hold. With a key that is neither
  \<^verbatim>\<open>"enter"\<close> nor \<^verbatim>\<open>"shift+enter"\<close> and \<open>ntimes = 2\<close>, a delay of \<open>-1\<close> lets the line be typed once
  and then the first \<^verbatim>\<open>time.sleep\<close> raises ValueError; a delay of \<open>10^10\<close> seconds does the same
  with OverflowError, and one of 9223372036 seconds, on a machine whose timer takes
  9223359101 seconds, with OSError.
\<close>

theorem negative_delay_stops_repeat_line:
  "outcome (repeat_line (Some ''ab'') 2 (- 1) ''x'') (initial_world 0) = Inl ValueError
   \<and> issued (repeat_line (Some ''ab'') 2 (- 1) ''x'') (initial_world 0)
     = [Typewrite ''ab'' (1 / 10)]
   \<and> outcome (repeat_line (Some ''ab'') 2 10000000000 ''x'') (initial_world 0)
     = Inl OverflowError
   \<and> issued (repeat_line (Some ''ab'') 2 10000000000 ''x'') (initial_world 0)
     = [Typewrite ''ab'' (1 / 10)]
   \<and> outcome (repeat_line (Some ''ab'') 2 9223372036 ''x'') (initial_world 9223359101)
     = Inl OSError
   \<and> issued (repeat_line (Some ''ab'') 2 9223372036 ''x'') (initial_world 9223359101)
     = [Typewrite ''ab'' (1 / 10)]"
proof -
  have two: "(0::int) < 2" by simp
  show ?thesis
    by (simp add: outcome_def issued_def submit_of_def trace_initial_world
          sleep_error_minus_1 sleep_error_10000000000 sleep_error_9223372036
          repeat_line_refused [OF refuses_minus_1 two]
          repeat_line_refused [OF refuses_10000000000 two]
          repeat_line_refused [OF refuses_9223372036 two])
qed

text \<open>
  Claim C9, amended. For every line, every \<open>ntimes \<ge> 0\<close>, every delay that \<^verbatim>\<open>time.sleep\<close>
  accepts and every key other than \<^verbatim>\<open>"enter"\<close> and \<^verbatim>\<open>"shift+enter"\<close>, \<^verbatim>\<open>repeat_line\<close> returns
  normally, types the line exactly \<open>ntimes\<close> times (each followed by the sleep) and issues no
  submit action.
\<close>

theorem repeat_line_other_key:
  assumes "0 \<le> ntimes" and "sleep_accepts w delay"
    and "key \<noteq> ''enter''" and "key \<noteq> ''shift+enter''"
  shows "outcome (repeat_line (Some line) ntimes delay key) w = Inr ()
       \<and> issued (repeat_line (Some line) ntimes delay key) w
           = concat (replicate (nat ntimes) [Typewrite line (1 / 10), Sleep delay])
       \<and> int (length (filter is_typewrite (issued (repeat_line (Some line) ntimes delay key) w)))
           = ntimes
       \<and> submit_actions (issued (repeat_line (Some line) ntimes delay key) w) = 0"
proof -
  note run = repeat_line_accepted [OF assms(2), of line ntimes key]
  from assms(3,4) have it: "iteration_of line delay key = [Typewrite line (1 / 10), Sleep delay]"
    by (simp add: iteration_of_def submit_of_def)
  from assms(1) show ?thesis
    by (simp add: outcome_def issued_def run it submit_actions_def
          filter_concat_replicate concat_replicate_single concat_replicate_Nil)
qed

theorem repeat_line_other_key_witness:
  "outcome (repeat_line (Some ''ab'') 2 0 ''x'') (initial_world 0) = Inr ()
   \<and> issued (repeat_line (Some ''ab'') 2 0 ''x'') (initial_world 0)
       = [Typewrite ''ab'' (1 / 10), Sleep 0, Typewrite ''ab'' (1 / 10), Sleep 0]
   \<and> submit_actions (issued (repeat_line (Some ''ab'') 2 0 ''x'') (initial_world 0)) = 0"
  using repeat_line_other_key [of 2 "initial_world 0" 0 "''x''" "''ab''"]
  by (simp add: accepts_0 numeral_2_eq_2 submit_actions_def)

subsection \<open>The dialog\<close>

lemma seq_assoc [simp]: "seq (seq a b) c = seq a (seq b c)"
  by (rule ext) (simp add: seq_def bind_def split: prod.splits sum.splits)

lemma seq_set_input_value [simp]:
  "seq (set_input_value v) k w = k (w\<lparr>input_value := Some v\<rparr>)"
  by (simp add: seq_def bind_def set_input_value_def)

lemma seq_sleep_2: "seq (sleep 2) k w = k (w\<lparr>trace := trace w @ [Sleep 2]\<rparr>)"
  by (rule seq_sleep_accepted, rule sleep_accepts_sure) (simp_all add: sure_sleep_def)

lemma cancel_click_run:
  "cancel_click w = (Inl SystemExit, w\<lparr>trace := trace w @ cancel_actions\<rparr>)"
  by (simp add: cancel_click_def cancel_actions_def destroy_def status_config_def update_def
        sys_exit_def seq_sleep_2 raise_def)

lemma submit_click_empty:
  "submit_click [] w
   = (Inl SystemExit,
      w\<lparr>trace := trace w @ [Destroy Res, Destroy B1, Destroy B2, Status ''No Value Submitted'',
                              Update] @ cancel_actions\<rparr>)"
  by (simp add: submit_click_def destroy_def status_config_def update_def
        seq_Inl [OF cancel_click_run])

lemma submit_click_text:
  "text \<noteq> [] \<Longrightarrow>
   submit_click text w
   = (Inr (),
      w\<lparr>input_value := Some text,
        trace := trace w @ [Destroy Res, Destroy B1, Destroy B2,
                            Status (''Submitted value: '' @ text), Update, Sleep 2,
                            Destroy Root]\<rparr>)"
  by (simp add: submit_click_def destroy_def status_config_def update_def seq_sleep_2 ret_def)

lemma dialog_run:
  "get_input_from_tk_window Title Message g w
   = (if exits g then Inl SystemExit else Inr (dialog_value g (input_value w)),
      w\<lparr>input_value := dialog_value g (input_value w),
        trace := trace w @ dialog_actions Title Message g\<rparr>)"
proof (cases g)
  case (Click_submit t)
  show ?thesis
  proof (cases "t = []")
    case True
    with Click_submit show ?thesis
      by (simp add: get_input_from_tk_window_def mainloop_def dialog_value_def
            dialog_actions_def seq_Inl [OF submit_click_empty])
  next
    case False
    with Click_submit show ?thesis
      by (simp add: get_input_from_tk_window_def mainloop_def dialog_value_def
            dialog_actions_def seq_Inr [OF submit_click_text] get_input_value_def)
  qed
next
  case Click_cancel
  then show ?thesis
    by (simp add: get_input_from_tk_window_def mainloop_def dialog_value_def
          dialog_actions_def seq_Inl [OF cancel_click_run])
next
  case Close_window
  then show ?thesis
    by (simp add: get_input_from_tk_window_def mainloop_def dialog_value_def
          dialog_actions_def get_input_value_def)
qed

lemma dialog_actions_no_keyboard: "filter is_keyboard (dialog_actions Title Message g) = []"
  by (cases g) (simp_all add: dialog_actions_def cancel_actions_def)

lemma dialog_actions_no_showinfo: "Showinfo t m \<notin> set (dialog_actions Title Message g)"
  by (cases g) (simp_all add: dialog_actions_def cancel_actions_def)


subsection \<open>The orchestration\<close>

lemma length_str_nat: "n < 10 ^ Suc k \<Longrightarrow> length (str_nat n) \<le> Suc k"
proof (induction k arbitrary: n)
  case 0
  then show ?case by (simp add: str_nat.simps [of n])
next
  case (Suc k)
  show ?case
  proof (cases "n < 10")
    case True
    then show ?thesis by (simp add: str_nat.simps [of n])
  next
    case False
    from Suc.prems have "n div 10 < 10 ^ Suc k" by simp
    from Suc.IH [OF this] False show ?thesis
      by (simp add: str_nat.simps [of n])
  qed
qed

lemma py_str_countdown:
  assumes "sleep_accepts w (of_int wait)"
  shows "py_str wait = ret (decimal wait)"
proof -
  from assms have "0 \<le> wait" and "(of_int (wait * 10 ^ 9) :: rat) < of_int (2 ^ 63 - 512)"
    by (simp_all add: sleep_accepts_def in_clock_range_def)
  then have "0 \<le> wait" and "wait * 10 ^ 9 < 2 ^ 63 - 512"
    by (simp_all only: of_int_less_iff)
  then have "nat \<bar>wait\<bar> < 10 ^ Suc 9" by simp
  from length_str_nat [OF this] show ?thesis
    by (simp add: py_str_def int_max_str_digits_def)
qed

lemma line_repeater_exits_first:
  assumes "exits g1"
  shows "line_repeater wait g1 g2 w
         = (Inl SystemExit,
            w\<lparr>input_value := dialog_value g1 (input_value w),
              trace := trace w @ dialog_actions ''Line Repeator'' ''Enter the line:'' g1\<rparr>)"
  using assms by (simp add: line_repeater_def bind_def dialog_run)

lemma line_repeater_exits_second:
  assumes "\<not> exits g1" and "exits g2"
  shows "line_repeater wait g1 g2 w
         = (Inl SystemExit,
            w\<lparr>input_value := dialog_value g2 (dialog_value g1 (input_value w)),
              trace := trace w @ dialog_actions ''Line Repeator'' ''Enter the line:'' g1
                @ dialog_actions ''Line Repeator''
                    ''Enter the number of times to be repeated:'' g2\<rparr>)"
  using assms by (simp add: line_repeater_def bind_def dialog_run)

lemma line_repeater_prompts:
  assumes p1: "get_input_from_tk_window ''Line Repeator'' ''Enter the line:'' g1 w = (Inr line, w1)"
    and p2: "get_input_from_tk_window ''Line Repeator''
               ''Enter the number of times to be repeated:'' g2 w1 = (Inr (Some count), w2)"
    and wait: "sleep_accepts w2 (of_int wait)"
  shows "line_repeater wait g1 g2 w
         = bind (py_int (Some count)) (\<lambda>n. repeat_line line n (1 / 2) ''shift+enter'')
             (w2\<lparr>trace := trace w2 @ [Showinfo ''Line Repeator'' (ack_text count wait),
                                       Sleep (of_int wait)]\<rparr>)"
  by (simp add: line_repeater_def bind_def p1 p2 ack_message_def str_add_def ret_def
        py_str_countdown [OF wait] showinfo_def sleep_accepted wait ack_text_def emit_def
        seq_def)

lemma line_repeater_prompts_refused:
  assumes p1: "get_input_from_tk_window ''Line Repeator'' ''Enter the line:'' g1 w = (Inr line, w1)"
    and p2: "get_input_from_tk_window ''Line Repeator''
               ''Enter the number of times to be repeated:'' g2 w1 = (Inr (Some count), w2)"
    and digits: "length (str_nat (nat \<bar>wait\<bar>)) \<le> int_max_str_digits"
    and wait: "\<not> sleep_accepts w2 (of_int wait)"
  shows "line_repeater wait g1 g2 w
         = (Inl (sleep_error (of_int wait)),
            w2\<lparr>trace := trace w2 @ [Showinfo ''Line Repeator'' (ack_text count wait)]\<rparr>)"
  using digits
  by (simp add: line_repeater_def bind_def p1 p2 ack_message_def str_add_def ret_def
        py_str_def showinfo_def sleep_refused wait ack_text_def emit_def seq_def)

lemma accepts_7: "sleep_accepts w (of_int 7)"
  by (rule sleep_accepts_sure) (simp_all add: sure_sleep_def)

lemma accepts_10: "sleep_accepts w (of_int 10)"
  by (rule sleep_accepts_sure) (simp_all add: sure_sleep_def)

lemma accepts_3: "sleep_accepts w (of_int 3)"
  by (rule sleep_accepts_sure) (simp_all add: sure_sleep_def)

lemma accepts_quarter: "sleep_accepts w (1 / 4)"
  by (rule sleep_accepts_sure) (simp_all add: sure_sleep_def)

lemma parse_int_1: "parse_int ''1'' = Some 1"
  by (simp add: parse_int_def strip_def is_space_def parse_body_def is_digit_def digit_val_def
        int_max_str_digits_def)

lemma parse_int_2: "parse_int ''2'' = Some 2"
  by (simp add: parse_int_def strip_def is_space_def parse_body_def is_digit_def digit_val_def
        int_max_str_digits_def)

lemma parse_int_3: "parse_int ''3'' = Some 3"
  by (simp add: parse_int_def strip_def is_space_def parse_body_def is_digit_def digit_val_def
        int_max_str_digits_def)

lemma parse_int_abc: "parse_int ''abc'' = None"
  by (simp add: parse_int_def strip_def is_space_def parse_body_def is_digit_def)

lemma decimal_3: "decimal 3 = ''3''"
  by code_simp

lemma decimal_7: "decimal 7 = ''7''"
  by code_simp

lemma decimal_10: "decimal 10 = ''10''"
  by code_simp

lemma decimal_minus_1: "decimal (- 1) = ''-1''"
  by code_simp

lemma digits_minus_1: "length (str_nat (nat \<bar>- 1\<bar>)) \<le> int_max_str_digits"
  by (simp add: str_nat.simps [of "Suc 0"] int_max_str_digits_def)

text \<open>Two dialogs submitted with text, on a machine whose timer takes nothing beyond a day.\<close>

lemma submitted_line:
  "line \<noteq> [] \<Longrightarrow>
   get_input_from_tk_window ''Line Repeator'' ''Enter the line:'' (Click_submit line)
     (initial_world 0)
   = (Inr (Some line),
      \<lparr>input_value = Some line,
       trace = [Dialog ''Line Repeator'' ''Enter the line:'', Destroy Res, Destroy B1, Destroy B2,
                Status (''Submitted value: '' @ line), Update, Sleep 2, Destroy Root],
       timer_limit = 0\<rparr>)"
  by (simp add: dialog_run dialog_value_def dialog_actions_def initial_world_def)

lemma submitted_count:
  "count \<noteq> [] \<Longrightarrow>
   get_input_from_tk_window ''Line Repeator'' ''Enter the number of times to be repeated:''
     (Click_submit count)
     \<lparr>input_value = Some line,
      trace = [Dialog ''Line Repeator'' ''Enter the line:'', Destroy Res, Destroy B1, Destroy B2,
               Status (''Submitted value: '' @ line), Update, Sleep 2, Destroy Root],
      timer_limit = 0\<rparr>
   = (Inr (Some count),
      \<lparr>input_value = Some count,
       trace = [Dialog ''Line Repeator'' ''Enter the line:'', Destroy Res, Destroy B1, Destroy B2,
                Status (''Submitted value: '' @ line), Update, Sleep 2, Destroy Root,
                Dialog ''Line Repeator'' ''Enter the number of times to be repeated:'',
                Destroy Res, Destroy B1, Destroy B2, Status (''Submitted value: '' @ count),
                Update, Sleep 2, Destroy Root],
       timer_limit = 0\<rparr>)"
  by (simp add: dialog_run dialog_value_def dialog_actions_def)

text \<open>
  Claim C2. When either dialog is cancelled or submitted with empty text (and, for the second
  dialog, the first one did not already end the run), \<^verbatim>\<open>line_repeater\<close> ends with SystemExit
  inside that dialog: the actions issued are those of the dialogs alone, with no
  acknowledgment and no keyboard action, so line 66 and \<^verbatim>\<open>repeat_line\<close> are never reached.
\<close>

theorem cancel_or_empty_never_types:
  assumes "exits g1 \<or> exits g2"
  shows "outcome (line_repeater wait g1 g2) w = Inl SystemExit
       \<and> issued (line_repeater wait g1 g2) w
           = dialog_actions ''Line Repeator'' ''Enter the line:'' g1
             @ (if exits g1 then []
                else dialog_actions ''Line Repeator''
                       ''Enter the number of times to be repeated:'' g2)
       \<and> filter is_keyboard (issued (line_repeater wait g1 g2) w) = []
       \<and> (\<forall>t m. Showinfo t m \<notin> set (issued (line_repeater wait g1 g2) w))"
proof (cases "exits g1")
  case True
  note run = line_repeater_exits_first [OF True, of wait g2 w]
  show ?thesis
    by (simp add: outcome_def issued_def run True dialog_actions_no_keyboard
          dialog_actions_no_showinfo)
next
  case False
  with assms have "exits g2" by simp
  note run = line_repeater_exits_second [OF False this, of wait w]
  show ?thesis
    by (simp add: outcome_def issued_def run False dialog_actions_no_keyboard
          dialog_actions_no_showinfo)
qed

theorem cancel_or_empty_never_types_witness:
  "outcome (line_repeater 7 (Click_submit ''hello'') (Click_submit [])) (initial_world 0)
     = Inl SystemExit
   \<and> issued (line_repeater 7 (Click_submit ''hello'') (Click_submit [])) (initial_world 0)
     = [Dialog ''Line Repeator'' ''Enter the line:'', Destroy Res, Destroy B1, Destroy B2,
        Status ''Submitted value: hello'', Update, Sleep 2, Destroy Root,
        Dialog ''Line Repeator'' ''Enter the number of times to be repeated:'',
        Destroy Res, Destroy B1, Destroy B2, Status ''No Value Submitted'', Update,
        Destroy B1, Destroy B2, Destroy Res, Sleep 2, Status ''Exiting Application...'', Update,
        Sleep 2, Destroy Root]
   \<and> outcome (line_repeater 7 Click_cancel (Click_submit ''3'')) (initial_world 0)
     = Inl SystemExit
   \<and> issued (line_repeater 7 Click_cancel (Click_submit ''3'')) (initial_world 0)
     = [Dialog ''Line Repeator'' ''Enter the line:'',
        Destroy B1, Destroy B2, Destroy Res, Sleep 2, Status ''Exiting Application...'', Update,
        Sleep 2, Destroy Root]"
  using cancel_or_empty_never_types
      [of "Click_submit ''hello''" "Click_submit []" 7 "initial_world 0"]
    cancel_or_empty_never_types [of Click_cancel "Click_submit ''3''" 7 "initial_world 0"]
  by (simp add: dialog_actions_def cancel_actions_def)

text \<open>
  Claim C8. On cancel the callback destroys the two buttons and the field and sleeps two
  seconds; then it shows the status \<^verbatim>\<open>"Exiting Application..."\<close>, refreshes the window, sleeps
  two seconds, destroys the dialog and raises SystemExit, in that order. The exception leaves
  the dialog function and \<^verbatim>\<open>line_repeater\<close> uncaught, whichever of the two dialogs is cancelled.
\<close>

theorem cancel_sequence:
  "cancel_click w
   = (Inl SystemExit,
      w\<lparr>trace := trace w @ [Destroy B1, Destroy B2, Destroy Res, Sleep 2,
                              Status ''Exiting Application...'', Update, Sleep 2, Destroy Root]\<rparr>)
   \<and> get_input_from_tk_window Title Message Click_cancel w
     = (Inl SystemExit,
        w\<lparr>trace := trace w @ [Dialog Title Message, Destroy B1, Destroy B2, Destroy Res, Sleep 2,
                                Status ''Exiting Application...'', Update, Sleep 2,
                                Destroy Root]\<rparr>)
   \<and> outcome (line_repeater wait Click_cancel g2) w = Inl SystemExit
   \<and> outcome (line_repeater wait g1 Click_cancel) w = Inl SystemExit"
proof -
  have first: "outcome (line_repeater wait Click_cancel g2) w = Inl SystemExit"
    by (simp add: outcome_def line_repeater_exits_first)
  have second: "outcome (line_repeater wait g1 Click_cancel) w = Inl SystemExit"
    by (cases "exits g1")
       (simp_all add: outcome_def line_repeater_exits_first line_repeater_exits_second)
  have dialog: "get_input_from_tk_window Title Message Click_cancel w
     = (Inl SystemExit,
        w\<lparr>trace := trace w @ [Dialog Title Message, Destroy B1, Destroy B2, Destroy Res, Sleep 2,
                                Status ''Exiting Application...'', Update, Sleep 2,
                                Destroy Root]\<rparr>)"
    by (simp add: dialog_run dialog_value_def dialog_actions_def cancel_actions_def)
  from first second dialog show ?thesis
    by (simp add: cancel_click_run cancel_actions_def)
qed

text \<open>
  Claim C3 as stated (every count string the dialog returns) does not hold. With the count
  \<^verbatim>\<open>"abc"\<close> the run shows the acknowledgment, sleeps and ends with ValueError at \<^verbatim>\<open>int(times)\<close>;
  with a startup delay of \<open>-1\<close> it shows the acknowledgment and ends with ValueError at
  \<^verbatim>\<open>time.sleep\<close>. In neither run is \<^verbatim>\<open>repeat_line\<close> called.
\<close>

theorem count_abc_or_refused_wait_never_repeats:
  "outcome (line_repeater 7 (Click_submit ''hi'') (Click_submit ''abc'')) (initial_world 0)
     = Inl ValueError
   \<and> issued (line_repeater 7 (Click_submit ''hi'') (Click_submit ''abc'')) (initial_world 0)
     = [Dialog ''Line Repeator'' ''Enter the line:'', Destroy Res, Destroy B1, Destroy B2,
        Status ''Submitted value: hi'', Update, Sleep 2, Destroy Root,
        Dialog ''Line Repeator'' ''Enter the number of times to be repeated:'',
        Destroy Res, Destroy B1, Destroy B2, Status ''Submitted value: abc'', Update,
        Sleep 2, Destroy Root,
        Showinfo ''Line Repeator''
          ''The line will be repeated abc times. Please switch to the target application and click on the text box to start the process in 7 Seconds.'',
        Sleep 7]
   \<and> outcome (line_repeater (- 1) (Click_submit ''hi'') (Click_submit ''3'')) (initial_world 0)
     = Inl ValueError
   \<and> issued (line_repeater (- 1) (Click_submit ''hi'') (Click_submit ''3'')) (initial_world 0)
     = [Dialog ''Line Repeator'' ''Enter the line:'', Destroy Res, Destroy B1, Destroy B2,
        Status ''Submitted value: hi'', Update, Sleep 2, Destroy Root,
        Dialog ''Line Repeator'' ''Enter the number of times to be repeated:'',
        Destroy Res, Destroy B1, Destroy B2, Status ''Submitted value: 3'', Update,
        Sleep 2, Destroy Root,
        Showinfo ''Line Repeator''
          ''The line will be repeated 3 times. Please switch to the target application and click on the text box to start the process in -1 Seconds.'']"
proof -
  have abc: "line_repeater 7 (Click_submit ''hi'') (Click_submit ''abc'') (initial_world 0)
             = bind (py_int (Some ''abc'')) (\<lambda>n. repeat_line (Some ''hi'') n (1 / 2) ''shift+enter'')
                 (\<lparr>input_value = Some ''abc'',
                   trace = [Dialog ''Line Repeator'' ''Enter the line:'', Destroy Res, Destroy B1, Destroy B2,
        Status ''Submitted value: hi'', Update, Sleep 2, Destroy Root,
        Dialog ''Line Repeator'' ''Enter the number of times to be repeated:'',
        Destroy Res, Destroy B1, Destroy B2, Status ''Submitted value: abc'', Update,
        Sleep 2, Destroy Root],
                   timer_limit = 0\<rparr>
                  \<lparr>trace := [Dialog ''Line Repeator'' ''Enter the line:'', Destroy Res, Destroy B1, Destroy B2,
        Status ''Submitted value: hi'', Update, Sleep 2, Destroy Root,
        Dialog ''Line Repeator'' ''Enter the number of times to be repeated:'',
        Destroy Res, Destroy B1, Destroy B2, Status ''Submitted value: abc'', Update,
        Sleep 2, Destroy Root]
                     @ [Showinfo ''Line Repeator'' (ack_text ''abc'' 7), Sleep (of_int 7)]\<rparr>)"
    using line_repeater_prompts [OF submitted_line [of "''hi''", simplified]
      submitted_count [of "''abc''" "''hi''", simplified] accepts_7]
    by simp
  have neg: "line_repeater (- 1) (Click_submit ''hi'') (Click_submit ''3'') (initial_world 0)
             = (Inl (sleep_error (of_int (- 1))),
                \<lparr>input_value = Some ''3'',
                  trace = [Dialog ''Line Repeator'' ''Enter the line:'', Destroy Res, Destroy B1, Destroy B2,
        Status ''Submitted value: hi'', Update, Sleep 2, Destroy Root,
        Dialog ''Line Repeator'' ''Enter the number of times to be repeated:'',
        Destroy Res, Destroy B1, Destroy B2, Status ''Submitted value: 3'', Update,
        Sleep 2, Destroy Root],
                  timer_limit = 0\<rparr>
                 \<lparr>trace := [Dialog ''Line Repeator'' ''Enter the line:'', Destroy Res, Destroy B1, Destroy B2,
        Status ''Submitted value: hi'', Update, Sleep 2, Destroy Root,
        Dialog ''Line Repeator'' ''Enter the number of times to be repeated:'',
        Destroy Res, Destroy B1, Destroy B2, Status ''Submitted value: 3'', Update,
        Sleep 2, Destroy Root]
                     @ [Showinfo ''Line Repeator'' (ack_text ''3'' (- 1))]\<rparr>)"
    using line_repeater_prompts_refused [OF submitted_line [of "''hi''", simplified]
      submitted_count [of "''3''" "''hi''", simplified] digits_minus_1]
    by (simp add: refuses_minus_1)
  show ?thesis
    by (simp add: outcome_def issued_def abc neg trace_initial_world py_int_def parse_int_abc
          ack_text_def decimal_7 decimal_minus_1 sleep_error_minus_1)
qed

text \<open>
  Claim C3, amended. Let the first dialog return the string \<open>line\<close> and the second, run after
  it, the string \<open>count\<close>; let \<open>count\<close> be the text of an integer \<open>n\<close>, and let \<^verbatim>\<open>time.sleep\<close> accept
  the startup delay (an integer number of seconds). Then \<^verbatim>\<open>line_repeater\<close> does, after the two
  dialogs: one \<^verbatim>\<open>showinfo\<close> whose message embeds \<open>count\<close> as it was typed, a sleep of the startup
  delay, and the call \<^verbatim>\<open>repeat_line(line, n, delay=0.5, key="shift+enter")\<close>.
\<close>

theorem line_repeater_sequence:
  assumes p1: "get_input_from_tk_window ''Line Repeator'' ''Enter the line:'' g1 w
               = (Inr (Some line), w1)"
    and p2: "get_input_from_tk_window ''Line Repeator''
               ''Enter the number of times to be repeated:'' g2 w1 = (Inr (Some count), w2)"
    and n: "parse_int count = Some n"
    and wait: "sleep_accepts w2 (of_int wait)"
  shows "line_repeater wait g1 g2 w
         = repeat_line (Some line) n (1 / 2) ''shift+enter''
             (w2\<lparr>trace := trace w2 @
                [Showinfo ''Line Repeator''
                   (''The line will be repeated '' @ count
                    @ '' times. Please switch to the target application and click on the text box to start the process in ''
                    @ decimal wait @ '' Seconds.''),
                 Sleep (of_int wait)]\<rparr>)"
  by (simp add: line_repeater_prompts [OF p1 p2 wait] py_int_def n ack_text_def)

theorem line_repeater_sequence_witness:
  "main 0 (Click_submit ''hello'') (Click_submit ''3'')
   = (Inr (),
      \<lparr>input_value = Some ''3'',
       trace = [Dialog ''Line Repeator'' ''Enter the line:'', Destroy Res, Destroy B1, Destroy B2,
        Status ''Submitted value: hello'', Update, Sleep 2, Destroy Root,
        Dialog ''Line Repeator'' ''Enter the number of times to be repeated:'',
        Destroy Res, Destroy B1, Destroy B2, Status ''Submitted value: 3'', Update,
        Sleep 2, Destroy Root,
        Showinfo ''Line Repeator''
          ''The line will be repeated 3 times. Please switch to the target application and click on the text box to start the process in 7 Seconds.'',
        Sleep 7,
        Typewrite ''hello'' (1 / 10), Hotkey [''shift'', ''enter''], Sleep (1 / 2),
        Typewrite ''hello'' (1 / 10), Hotkey [''shift'', ''enter''], Sleep (1 / 2),
        Typewrite ''hello'' (1 / 10), Hotkey [''shift'', ''enter''], Sleep (1 / 2)],
       timer_limit = 0\<rparr>)"
  using line_repeater_sequence [OF submitted_line [of "''hello''", simplified]
      submitted_count [of "''3''" "''hello''", simplified] parse_int_3 accepts_7]
  by (simp add: main_def repeat_line_accepted [OF accepts_half] decimal_7 iteration_of_def
        submit_of_def numeral_3_eq_3)

text \<open>
  Claim C5. When the count dialog returns a string that \<^verbatim>\<open>int\<close> refuses, such as \<^verbatim>\<open>"abc"\<close>,
  \<^verbatim>\<open>line_repeater\<close> shows the acknowledgment, sleeps the startup delay and then ends with an
  uncaught ValueError; nothing is issued after the sleep, so \<^verbatim>\<open>repeat_line\<close> is never called.
\<close>

theorem non_numeric_count_fails:
  assumes p1: "get_input_from_tk_window ''Line Repeator'' ''Enter the line:'' g1 w = (Inr line, w1)"
    and p2: "get_input_from_tk_window ''Line Repeator''
               ''Enter the number of times to be repeated:'' g2 w1 = (Inr (Some count), w2)"
    and n: "parse_int count = None"
    and wait: "sleep_accepts w2 (of_int wait)"
  shows "line_repeater wait g1 g2 w
         = (Inl ValueError,
            w2\<lparr>trace := trace w2 @ [Showinfo ''Line Repeator'' (ack_text count wait),
                                      Sleep (of_int wait)]\<rparr>)"
  by (simp add: line_repeater_prompts [OF p1 p2 wait] py_int_def n)

theorem non_numeric_count_fails_witness:
  "main 0 (Click_submit ''hello'') (Click_submit ''abc'')
   = (Inl ValueError,
      \<lparr>input_value = Some ''abc'',
       trace = [Dialog ''Line Repeator'' ''Enter the line:'', Destroy Res, Destroy B1, Destroy B2,
        Status ''Submitted value: hello'', Update, Sleep 2, Destroy Root,
        Dialog ''Line Repeator'' ''Enter the number of times to be repeated:'',
        Destroy Res, Destroy B1, Destroy B2, Status ''Submitted value: abc'', Update,
        Sleep 2, Destroy Root,
        Showinfo ''Line Repeator''
          ''The line will be repeated abc times. Please switch to the target application and click on the text box to start the process in 7 Seconds.'',
        Sleep 7],
       timer_limit = 0\<rparr>)"
  using non_numeric_count_fails [OF submitted_line [of "''hello''", simplified]
      submitted_count [of "''abc''" "''hello''", simplified] parse_int_abc accepts_7]
  by (simp add: main_def ack_text_def decimal_7)

text \<open>
  Claim C6 as stated does not hold: called without an argument, \<^verbatim>\<open>line_repeater\<close> announces and
  sleeps 10 seconds, not 7.
\<close>

theorem no_argument_counts_down_ten:
  "issued (line_repeater_no_argument (Click_submit ''a'') (Click_submit ''1'')) (initial_world 0)
   = [Dialog ''Line Repeator'' ''Enter the line:'', Destroy Res, Destroy B1, Destroy B2,
        Status ''Submitted value: a'', Update, Sleep 2, Destroy Root,
        Dialog ''Line Repeator'' ''Enter the number of times to be repeated:'',
        Destroy Res, Destroy B1, Destroy B2, Status ''Submitted value: 1'', Update,
        Sleep 2, Destroy Root,
        Showinfo ''Line Repeator''
          ''The line will be repeated 1 times. Please switch to the target application and click on the text box to start the process in 10 Seconds.'',
        Sleep 10,
        Typewrite ''a'' (1 / 10), Hotkey [''shift'', ''enter''], Sleep (1 / 2)]
   \<and> Sleep 7 \<notin> set (issued (line_repeater_no_argument (Click_submit ''a'') (Click_submit ''1''))
                        (initial_world 0))"
proof -
  have run: "line_repeater 10 (Click_submit ''a'') (Click_submit ''1'') (initial_world 0)
             = repeat_line (Some ''a'') 1 (1 / 2) ''shift+enter''
                 (\<lparr>input_value = Some ''1'',
                   trace = [Dialog ''Line Repeator'' ''Enter the line:'', Destroy Res, Destroy B1, Destroy B2,
        Status ''Submitted value: a'', Update, Sleep 2, Destroy Root,
        Dialog ''Line Repeator'' ''Enter the number of times to be repeated:'',
        Destroy Res, Destroy B1, Destroy B2, Status ''Submitted value: 1'', Update,
        Sleep 2, Destroy Root],
                   timer_limit = 0\<rparr>
                  \<lparr>trace := [Dialog ''Line Repeator'' ''Enter the line:'', Destroy Res, Destroy B1, Destroy B2,
        Status ''Submitted value: a'', Update, Sleep 2, Destroy Root,
        Dialog ''Line Repeator'' ''Enter the number of times to be repeated:'',
        Destroy Res, Destroy B1, Destroy B2, Status ''Submitted value: 1'', Update,
        Sleep 2, Destroy Root]
                     @ [Showinfo ''Line Repeator'' (ack_text ''1'' 10), Sleep (of_int 10)]\<rparr>)"
    using line_repeater_prompts [OF submitted_line [of "''a''", simplified]
      submitted_count [of "''1''" "''a''", simplified] accepts_10]
    by (simp add: py_int_def parse_int_1)
  show ?thesis
    by (simp add: line_repeater_no_argument_def wait_before_start_default_def issued_def run
          trace_initial_world repeat_line_accepted [OF accepts_half] ack_text_def decimal_10
          iteration_of_def submit_of_def)
qed

text \<open>
  Claim C6, amended. Called without an argument, \<^verbatim>\<open>line_repeater\<close> counts down 10 seconds, the
  default in its signature; the program counts down 7 seconds because its entry point passes
  \<^verbatim>\<open>wait_before_start=7\<close> explicitly.
\<close>

theorem default_countdown:
  assumes p1: "get_input_from_tk_window ''Line Repeator'' ''Enter the line:'' g1
                 (initial_world limit) = (Inr line, w1)"
    and p2: "get_input_from_tk_window ''Line Repeator''
               ''Enter the number of times to be repeated:'' g2 w1 = (Inr (Some count), w2)"
  shows "line_repeater_no_argument g1 g2 (initial_world limit)
         = bind (py_int (Some count)) (\<lambda>n. repeat_line line n (1 / 2) ''shift+enter'')
             (w2\<lparr>trace := trace w2 @
                [Showinfo ''Line Repeator''
                   (''The line will be repeated '' @ count
                    @ '' times. Please switch to the target application and click on the text box to start the process in 10 Seconds.''),
                 Sleep 10]\<rparr>)
       \<and> main limit g1 g2
         = bind (py_int (Some count)) (\<lambda>n. repeat_line line n (1 / 2) ''shift+enter'')
             (w2\<lparr>trace := trace w2 @
                [Showinfo ''Line Repeator''
                   (''The line will be repeated '' @ count
                    @ '' times. Please switch to the target application and click on the text box to start the process in 7 Seconds.''),
                 Sleep 7]\<rparr>)"
  by (simp add: line_repeater_no_argument_def wait_before_start_default_def main_def
        line_repeater_prompts [OF p1 p2 accepts_10] line_repeater_prompts [OF p1 p2 accepts_7]
        ack_text_def decimal_10 decimal_7)

theorem default_countdown_witness:
  "fst (line_repeater_no_argument (Click_submit ''a'') (Click_submit ''1'') (initial_world 0))
     = Inr ()
   \<and> trace (snd (line_repeater_no_argument (Click_submit ''a'') (Click_submit ''1'')
                  (initial_world 0)))
     = [Dialog ''Line Repeator'' ''Enter the line:'', Destroy Res, Destroy B1, Destroy B2,
        Status ''Submitted value: a'', Update, Sleep 2, Destroy Root,
        Dialog ''Line Repeator'' ''Enter the number of times to be repeated:'',
        Destroy Res, Destroy B1, Destroy B2, Status ''Submitted value: 1'', Update,
        Sleep 2, Destroy Root,
        Showinfo ''Line Repeator''
          ''The line will be repeated 1 times. Please switch to the target application and click on the text box to start the process in 10 Seconds.'',
        Sleep 10,
        Typewrite ''a'' (1 / 10), Hotkey [''shift'', ''enter''], Sleep (1 / 2)]
   \<and> trace (snd (main 0 (Click_submit ''a'') (Click_submit ''1'')))
     = [Dialog ''Line Repeator'' ''Enter the line:'', Destroy Res, Destroy B1, Destroy B2,
        Status ''Submitted value: a'', Update, Sleep 2, Destroy Root,
        Dialog ''Line Repeator'' ''Enter the number of times to be repeated:'',
        Destroy Res, Destroy B1, Destroy B2, Status ''Submitted value: 1'', Update,
        Sleep 2, Destroy Root,
        Showinfo ''Line Repeator''
          ''The line will be repeated 1 times. Please switch to the target application and click on the text box to start the process in 7 Seconds.'',
        Sleep 7,
        Typewrite ''a'' (1 / 10), Hotkey [''shift'', ''enter''], Sleep (1 / 2)]"
  using default_countdown [OF submitted_line [of "''a''", simplified]
      submitted_count [of "''1''" "''a''", simplified]]
  by (simp add: py_int_def parse_int_1 repeat_line_accepted [OF accepts_half]
        iteration_of_def submit_of_def)

text \<open>
  Claim C7 as stated does not hold: \<^verbatim>\<open>line_repeater\<close> has one parameter, the countdown; a call
  that overrides it (here with 3 seconds) still sleeps 0.5 seconds after every iteration.
\<close>

theorem overridden_countdown_keeps_half_second:
  "issued (line_repeater 3 (Click_submit ''a'') (Click_submit ''2'')) (initial_world 0)
   = [Dialog ''Line Repeator'' ''Enter the line:'', Destroy Res, Destroy B1, Destroy B2,
        Status ''Submitted value: a'', Update, Sleep 2, Destroy Root,
        Dialog ''Line Repeator'' ''Enter the number of times to be repeated:'',
        Destroy Res, Destroy B1, Destroy B2, Status ''Submitted value: 2'', Update,
        Sleep 2, Destroy Root,
        Showinfo ''Line Repeator''
          ''The line will be repeated 2 times. Please switch to the target application and click on the text box to start the process in 3 Seconds.'',
        Sleep 3,
        Typewrite ''a'' (1 / 10), Hotkey [''shift'', ''enter''], Sleep (1 / 2),
        Typewrite ''a'' (1 / 10), Hotkey [''shift'', ''enter''], Sleep (1 / 2)]"
proof -
  have run: "line_repeater 3 (Click_submit ''a'') (Click_submit ''2'') (initial_world 0)
             = repeat_line (Some ''a'') 2 (1 / 2) ''shift+enter''
                 (\<lparr>input_value = Some ''2'',
                   trace = [Dialog ''Line Repeator'' ''Enter the line:'', Destroy Res, Destroy B1, Destroy B2,
        Status ''Submitted value: a'', Update, Sleep 2, Destroy Root,
        Dialog ''Line Repeator'' ''Enter the number of times to be repeated:'',
        Destroy Res, Destroy B1, Destroy B2, Status ''Submitted value: 2'', Update,
        Sleep 2, Destroy Root],
                   timer_limit = 0\<rparr>
                  \<lparr>trace := [Dialog ''Line Repeator'' ''Enter the line:'', Destroy Res, Destroy B1, Destroy B2,
        Status ''Submitted value: a'', Update, Sleep 2, Destroy Root,
        Dialog ''Line Repeator'' ''Enter the number of times to be repeated:'',
        Destroy Res, Destroy B1, Destroy B2, Status ''Submitted value: 2'', Update,
        Sleep 2, Destroy Root]
                     @ [Showinfo ''Line Repeator'' (ack_text ''2'' 3), Sleep (of_int 3)]\<rparr>)"
    using line_repeater_prompts [OF submitted_line [of "''a''", simplified]
      submitted_count [of "''2''" "''a''", simplified] accepts_3]
    by (simp add: py_int_def parse_int_2)
  show ?thesis
    by (simp add: issued_def run trace_initial_world repeat_line_accepted [OF accepts_half]
          ack_text_def decimal_3 iteration_of_def submit_of_def numeral_2_eq_2)
qed

text \<open>
  Claim C7, amended. The countdown is a parameter of \<^verbatim>\<open>line_repeater\<close>: for every integer number
  of seconds that \<^verbatim>\<open>time.sleep\<close> accepts, a run whose dialogs return a line and the text of an
  integer sleeps that startup delay. The delay between iterations is a parameter of
  \<^verbatim>\<open>repeat_line\<close> only, which sleeps every delay it is given that \<^verbatim>\<open>time.sleep\<close> accepts;
  \<^verbatim>\<open>line_repeater\<close> passes 0.5 seconds in every such run, whatever startup delay its caller
  chose.
\<close>

theorem countdown_overridable_delay_fixed:
  assumes p1: "get_input_from_tk_window ''Line Repeator'' ''Enter the line:'' g1 w
               = (Inr (Some line), w1)"
    and p2: "get_input_from_tk_window ''Line Repeator''
               ''Enter the number of times to be repeated:'' g2 w1 = (Inr (Some count), w2)"
    and n: "parse_int count = Some n"
    and wait: "sleep_accepts w2 (of_int wait)"
    and d: "sleep_accepts w' d"
  shows "line_repeater wait g1 g2 w
         = (Inr (),
            w2\<lparr>trace := trace w2 @
               [Showinfo ''Line Repeator'' (ack_text count wait), Sleep (of_int wait)]
               @ concat (replicate (nat n)
                   [Typewrite line (1 / 10), Hotkey [''shift'', ''enter''], Sleep (1 / 2)])\<rparr>)
       \<and> repeat_line (Some line) n d ''shift+enter'' w'
         = (Inr (),
            w'\<lparr>trace := trace w' @
               concat (replicate (nat n)
                   [Typewrite line (1 / 10), Hotkey [''shift'', ''enter''], Sleep d])\<rparr>)"
  by (simp add: line_repeater_prompts [OF p1 p2 wait] py_int_def n
        repeat_line_accepted [OF accepts_half] repeat_line_accepted [OF d]
        iteration_of_def submit_of_def)

theorem countdown_overridable_delay_fixed_witness:
  "main 0 (Click_submit ''a'') (Click_submit ''2'')
   = (Inr (),
      \<lparr>input_value = Some ''2'',
       trace = [Dialog ''Line Repeator'' ''Enter the line:'', Destroy Res, Destroy B1, Destroy B2,
        Status ''Submitted value: a'', Update, Sleep 2, Destroy Root,
        Dialog ''Line Repeator'' ''Enter the number of times to be repeated:'',
        Destroy Res, Destroy B1, Destroy B2, Status ''Submitted value: 2'', Update,
        Sleep 2, Destroy Root,
        Showinfo ''Line Repeator''
          ''The line will be repeated 2 times. Please switch to the target application and click on the text box to start the process in 7 Seconds.'',
        Sleep 7,
        Typewrite ''a'' (1 / 10), Hotkey [''shift'', ''enter''], Sleep (1 / 2),
        Typewrite ''a'' (1 / 10), Hotkey [''shift'', ''enter''], Sleep (1 / 2)],
       timer_limit = 0\<rparr>)
   \<and> repeat_line (Some ''a'') 2 (1 / 4) ''shift+enter'' (initial_world 0)
   = (Inr (),
      \<lparr>input_value = None,
       trace = [Typewrite ''a'' (1 / 10), Hotkey [''shift'', ''enter''], Sleep (1 / 4),
                Typewrite ''a'' (1 / 10), Hotkey [''shift'', ''enter''], Sleep (1 / 4)],
       timer_limit = 0\<rparr>)"
  using countdown_overridable_delay_fixed
      [OF submitted_line [of "''a''", simplified]
      submitted_count [of "''2''" "''a''", simplified] parse_int_2 accepts_7 accepts_quarter, of "initial_world 0"]
  by (simp add: main_def ack_text_def decimal_7 numeral_2_eq_2 initial_world_def)

end
